theory Spec2Isabelle
  imports Main "HOL-Library.Sublist"
begin

section \<open>JavaScript values and platform objects\<close>

text \<open>
  The request pipeline of \<^verbatim>\<open>core/app/index.ts\<close> (the part of
  \<^verbatim>\<open>src/packages/astro/content-generated.d.ts\<close> that declares
  \<^verbatim>\<open>class App\<close>) and of \<^verbatim>\<open>core/endpoint/index.ts\<close>
  (\<^verbatim>\<open>src/unnamed/part_000\<close>: \<^verbatim>\<open>createAPIContext\<close>,
  \<^verbatim>\<open>call\<close>, \<^verbatim>\<open>throwIfRedirectNotAllowed\<close>).

  Values a script can assign to \<^verbatim>\<open>context.locals\<close>. Numbers are kept to the
  integers; a function value carries only a name.
\<close>

datatype jsval =
    JUndefined
  | JNull
  | JBool bool
  | JNum int
  | JStr string
  | JBigInt int
  | JSymbol string
  | JFun string
  | JArr "jsval list"
  | JObj "(string \<times> jsval) list"

text \<open>The \<^verbatim>\<open>typeof\<close> operator of the language (\<^verbatim>\<open>typeof null\<close> is
  \<^verbatim>\<open>'object'\<close>, a callable is \<^verbatim>\<open>'function'\<close>).\<close>

fun js_typeof :: "jsval \<Rightarrow> string" where
  "js_typeof JUndefined = ''undefined''"
| "js_typeof JNull = ''object''"
| "js_typeof (JBool b) = ''boolean''"
| "js_typeof (JNum n) = ''number''"
| "js_typeof (JStr s) = ''string''"
| "js_typeof (JBigInt n) = ''bigint''"
| "js_typeof (JSymbol s) = ''symbol''"
| "js_typeof (JFun f) = ''function''"
| "js_typeof (JArr xs) = ''object''"
| "js_typeof (JObj kvs) = ''object''"

text \<open>Truthiness of an optional string (\<^verbatim>\<open>if (adapterName)\<close>,
  \<^verbatim>\<open>site ? ... : undefined\<close>): \<^verbatim>\<open>undefined\<close> and the empty string are falsy.\<close>

fun truthy_string :: "string option \<Rightarrow> bool" where
  "truthy_string None = False"
| "truthy_string (Some s) = (s \<noteq> [])"

text \<open>Errors a step of the pipeline can throw. The four \<^verbatim>\<open>AstroErrorData\<close> entries the
  sources name, the plain \<^verbatim>\<open>Error\<close> of \<^verbatim>\<open>App.render\<close>, the platform's
  \<^verbatim>\<open>TypeError\<close> and \<^verbatim>\<open>RangeError\<close>, and whatever user code throws: an
  \<^verbatim>\<open>Error\<close> object of its own (\<open>UserError\<close>), or any other value (\<open>Thrown\<close>;
  \<^verbatim>\<open>throw null\<close>, or a promise rejected without a reason, which throws
  \<^verbatim>\<open>undefined\<close>).\<close>

datatype js_error =
    ClientAddressNotAvailable string
  | StaticClientAddressNotAvailable
  | LocalsNotAnObject
  | LocalsNotSerializable string
  | StaticRedirectNotAvailable
  | Error string
  | TypeError string
  | RangeError string
  | UserError string
  | Thrown jsval

text \<open>Whether a property of the thrown value can be read (\<^verbatim>\<open>err.stack\<close>): reading one
  from \<^verbatim>\<open>null\<close> or \<^verbatim>\<open>undefined\<close> is a \<^verbatim>\<open>TypeError\<close>.\<close>

fun has_properties :: "js_error \<Rightarrow> bool" where
  "has_properties (Thrown JNull) = False"
| "has_properties (Thrown JUndefined) = False"
| "has_properties err = True"

text \<open>A \<^verbatim>\<open>Request\<close>: its URL, and the three properties the framework hangs on it under
  \<^verbatim>\<open>Symbol.for('astro.clientAddress')\<close>, \<^verbatim>\<open>Symbol.for('astro.locals')\<close> and
  \<^verbatim>\<open>Symbol.for('astro.responseSent')\<close>; \<open>None\<close> is a property that is not there.\<close>

record Request =
  url_origin :: string
  url_pathname :: string
  clientAddressSymbol :: "jsval option"
  clientLocalsSymbol :: "jsval option"
  responseSentSymbol :: "jsval option"

text \<open>\<^verbatim>\<open>Reflect.get\<close> on such a property: a missing one reads as \<^verbatim>\<open>undefined\<close>.\<close>

fun Reflect_get :: "jsval option \<Rightarrow> jsval" where
  "Reflect_get None = JUndefined"
| "Reflect_get (Some v) = v"

text \<open>\<^verbatim>\<open>new Request(new URL(path, base))\<close> for an absolute path: same origin, no symbol
  property.\<close>

definition new_Request :: "string \<Rightarrow> string \<Rightarrow> Request" where
  "new_Request origin path =
     \<lparr>url_origin = origin, url_pathname = path, clientAddressSymbol = None,
      clientLocalsSymbol = None, responseSentSymbol = None\<rparr>"

text \<open>Header names are case-insensitive: \<^verbatim>\<open>Headers\<close> stores them in lower case.\<close>

definition lower_char :: "char \<Rightarrow> char" where
  "lower_char c =
     (case map_of (zip ''ABCDEFGHIJKLMNOPQRSTUVWXYZ'' ''abcdefghijklmnopqrstuvwxyz'') c of
        None \<Rightarrow> c | Some l \<Rightarrow> l)"

type_synonym Headers = "(string \<times> string) list"

definition Headers_get :: "Headers \<Rightarrow> string \<Rightarrow> string option" where
  "Headers_get h name = map_of h (map lower_char name)"

definition Headers_set :: "Headers \<Rightarrow> string \<Rightarrow> string \<Rightarrow> Headers" where
  "Headers_set h name v =
     (let k = map lower_char name in filter (\<lambda>(k', _). k' \<noteq> k) h @ [(k, v)])"

text \<open>A cookie jar (\<^verbatim>\<open>AstroCookies\<close>) is an object user code writes to; a context and a
  response hold a reference to it, and the jars themselves live in the state below.\<close>

type_synonym AstroCookies = nat

text \<open>A \<^verbatim>\<open>Response\<close>: its body is a sequence of bytes, a \<^verbatim>\<open>null\<close> body is
  \<open>None\<close>; \<open>astroCookies\<close> is the
  property \<^verbatim>\<open>attachToResponse\<close> sets.\<close>

record Response =
  status :: nat
  statusText :: string
  headers :: Headers
  body :: "nat list option"
  astroCookies :: "AstroCookies option"

record LogOptions =
  dest :: string
  level :: string

text \<open>A call of the logger (\<^verbatim>\<open>logger/core.js\<close>): \<^verbatim>\<open>warn(opts, label, message)\<close> or
  \<^verbatim>\<open>error(opts, label, ...)\<close> with the error whose stack or message is printed.\<close>

datatype LogCall =
    warn_call LogOptions string string
  | error_call LogOptions string js_error

section \<open>State and exceptions\<close>

text \<open>
  The state the pipeline mutates: the request object being served, the cookie jars
  allocated so far, and the calls made to the logger. A step either returns a value,
  throws, or does not return; each leaves a state behind unless it does not return.
\<close>

record World =
  request :: Request
  jars :: "(string \<times> string) list list"
  logs :: "LogCall list"

datatype 'a res = Returns 'a World | Throws js_error World | Diverges

type_synonym 'a M = "World \<Rightarrow> 'a res"

definition returnM :: "'a \<Rightarrow> 'a M" where
  "returnM x w = Returns x w"

definition throwM :: "js_error \<Rightarrow> 'a M" where
  "throwM e w = Throws e w"

definition bindM :: "'a M \<Rightarrow> ('a \<Rightarrow> 'b M) \<Rightarrow> 'b M" where
  "bindM m f w =
     (case m w of Returns x w' \<Rightarrow> f x w' | Throws e w' \<Rightarrow> Throws e w' | Diverges \<Rightarrow> Diverges)"

text \<open>\<^verbatim>\<open>try { m } catch (err) { h(err) }\<close>.\<close>

definition tryM :: "'a M \<Rightarrow> (js_error \<Rightarrow> 'a M) \<Rightarrow> 'a M" where
  "tryM m h w =
     (case m w of Returns x w' \<Rightarrow> Returns x w' | Throws e w' \<Rightarrow> h e w' | Diverges \<Rightarrow> Diverges)"

definition warn :: "LogOptions \<Rightarrow> string \<Rightarrow> string \<Rightarrow> unit M" where
  "warn opts label message w = Returns () (w\<lparr>logs := logs w @ [warn_call opts label message]\<rparr>)"

definition error :: "LogOptions \<Rightarrow> string \<Rightarrow> js_error \<Rightarrow> unit M" where
  "error opts label err w = Returns () (w\<lparr>logs := logs w @ [error_call opts label err]\<rparr>)"

text \<open>\<^verbatim>\<open>new AstroCookies(request)\<close>: a fresh, empty jar.\<close>

definition new_AstroCookies :: "AstroCookies M" where
  "new_AstroCookies w = Returns (length (jars w)) (w\<lparr>jars := jars w @ [[]]\<rparr>)"

text \<open>Modelled from the spec: \<^verbatim>\<open>attachToResponse\<close> of \<^verbatim>\<open>cookies/index.js\<close>, which is
  not under src/ (``propagate cookies onto it'', ``attach cookies''): the response gets a
  reference to the jar.\<close>

definition attachToResponse :: "Response \<Rightarrow> AstroCookies \<Rightarrow> Response" where
  "attachToResponse response cookies = response\<lparr>astroCookies := Some cookies\<rparr>"

text \<open>What an observer sees of a step's outcome.\<close>

fun returned :: "'a res \<Rightarrow> 'a option" where
  "returned (Returns x w) = Some x"
| "returned (Throws e w) = None"
| "returned Diverges = None"

section \<open>The request context (\<^verbatim>\<open>createAPIContext\<close>)\<close>

text \<open>
  The context object. \<^verbatim>\<open>request\<close> is the request of the state; \<open>adapterName\<close> is the
  variable the \<^verbatim>\<open>clientAddress\<close> getter closes over. \<^verbatim>\<open>clientAddress\<close> and
  \<^verbatim>\<open>locals\<close> are accessors, below. A configured \<^verbatim>\<open>site\<close> is taken to be a
  well-formed URL, so that \<^verbatim>\<open>new URL(site)\<close> returns.
\<close>

record APIContext =
  cookies :: AstroCookies
  params :: jsval
  site :: "string option"
  generator :: string
  props :: jsval
  url :: string
  adapterName :: "string option"

record APIContextArgs =
  arg_params :: jsval
  arg_site :: "string option"
  arg_props :: jsval
  arg_adapterName :: "string option"

definition createAPIContext :: "string \<Rightarrow> APIContextArgs \<Rightarrow> APIContext M" where
  "createAPIContext ASTRO_VERSION args =
     bindM new_AstroCookies (\<lambda>jar w.
       Returns
         \<lparr>cookies = jar,
          params = arg_params args,
          site = (if truthy_string (arg_site args) then arg_site args else None),
          generator = ''Astro v'' @ ASTRO_VERSION,
          props = arg_props args,
          url = url_origin (request w) @ url_pathname (request w),
          adapterName = arg_adapterName args\<rparr> w)"

text \<open>\<^verbatim>\<open>redirect(path, status)\<close>: \<^verbatim>\<open>status || 302\<close>; the \<^verbatim>\<open>Response\<close> constructor
  refuses a status outside 200..599.\<close>

definition redirect :: "string \<Rightarrow> nat option \<Rightarrow> js_error + Response" where
  "redirect path st =
     (let s = (case st of None \<Rightarrow> 302 | Some n \<Rightarrow> if n = 0 then 302 else n) in
      if s < 200 \<or> 599 < s then Inl (RangeError ''status'')
      else Inr \<lparr>status = s, statusText = [], headers = Headers_set [] ''Location'' path,
                body = None, astroCookies = None\<rparr>)"

text \<open>\<^verbatim>\<open>get clientAddress()\<close>.\<close>

definition get_clientAddress :: "APIContext \<Rightarrow> jsval M" where
  "get_clientAddress context w =
     (case clientAddressSymbol (request w) of
        None \<Rightarrow>
          (case adapterName context of
             Some name \<Rightarrow>
               if name \<noteq> [] then Throws (ClientAddressNotAvailable name) w
               else Throws StaticClientAddressNotAvailable w
           | None \<Rightarrow> Throws StaticClientAddressNotAvailable w)
      | Some v \<Rightarrow> Returns (Reflect_get (clientAddressSymbol (request w))) w)"

text \<open>The \<^verbatim>\<open>locals\<close> property defined by \<^verbatim>\<open>Object.defineProperty\<close>: its getter and
  its setter.\<close>

definition get_locals :: "APIContext \<Rightarrow> jsval M" where
  "get_locals context w = Returns (Reflect_get (clientLocalsSymbol (request w))) w"

definition set_locals :: "APIContext \<Rightarrow> jsval \<Rightarrow> unit M" where
  "set_locals context val w =
     (if js_typeof val \<noteq> ''object'' then Throws LocalsNotAnObject w
      else Returns () (w\<lparr>request := (request w)\<lparr>clientLocalsSymbol := Some val\<rparr>\<rparr>))"

section \<open>The redirect guard\<close>

record AstroConfig =
  config_output :: string

definition isRedirect :: "nat \<Rightarrow> bool" where
  "isRedirect statusCode = (300 \<le> statusCode \<and> statusCode < 400)"

definition throwIfRedirectNotAllowed :: "Response \<Rightarrow> AstroConfig \<Rightarrow> js_error + unit" where
  "throwIfRedirectNotAllowed response config =
     (if config_output config \<noteq> ''server'' \<and> isRedirect (status response)
      then Inl StaticRedirectNotAvailable else Inr ())"


section \<open>Routes, manifest, environment\<close>

record RouteData =
  route :: string
  type :: string
  prerender :: bool
  component :: string

record ManifestData =
  routes :: "RouteData list"

text \<open>An entry of \<^verbatim>\<open>info.scripts\<close>: one with a \<^verbatim>\<open>stage\<close> (and its
  \<^verbatim>\<open>children\<close>), or a module script.\<close>

datatype script = staged string string | module_script string

datatype SSRElement = inline_element string | external_element string

record RouteInfo =
  routeData :: RouteData
  styles :: "string list"
  scripts :: "script list"

text \<open>A component module; \<^verbatim>\<open>mod.prerender\<close> is read by the endpoint invoker.\<close>

record ComponentInstance =
  module_id :: string
  mod_prerender :: bool

record 'h AstroMiddlewareInstance =
  onRequest :: "'h option"

text \<open>The fields of the manifest the pipeline reads (\<^verbatim>\<open>markdown\<close>, \<^verbatim>\<open>renderers\<close>,
  \<^verbatim>\<open>entryModules\<close> and \<^verbatim>\<open>assetsPrefix\<close> only reach the renderer's environment).\<close>

record 'h SSRManifest =
  manifest_routes :: "RouteInfo list"
  manifest_adapterName :: "string option"
  manifest_base :: "string option"
  manifest_site :: "string option"
  assets :: "string set"
  pageMap :: "string \<Rightarrow> ComponentInstance option"
  middleware :: "'h AstroMiddlewareInstance option"
  componentMetadata :: string

record Environment =
  env_adapterName :: "string option"
  logging :: LogOptions
  mode :: string
  env_site :: "string option"
  ssr :: bool
  streaming :: bool

record RenderContext =
  rc_params :: jsval
  rc_props :: jsval
  rc_pathname :: string
  rc_status :: nat
  rc_route :: RouteData

record RenderContextArgs =
  rca_origin :: string
  rca_pathname :: string
  rca_componentMetadata :: "string option"
  rca_scripts :: "SSRElement list"
  rca_styles :: "SSRElement list"
  rca_route :: RouteData
  rca_status :: nat
  rca_mod :: "ComponentInstance option"
  rca_env :: Environment

text \<open>What an endpoint handler hands back: a \<^verbatim>\<open>Response\<close>, or an object with a string
  \<^verbatim>\<open>body\<close>, maybe an \<^verbatim>\<open>encoding\<close>, maybe \<^verbatim>\<open>headers\<close>.\<close>

record EndpointOutput =
  out_body :: string
  out_encoding :: "string option"
  out_has_headers :: bool

datatype EndpointReturn = a_Response Response | an_Output EndpointOutput

datatype EndpointCallResult =
    type_simple string "string option" AstroCookies
  | type_response Response

text \<open>
  The functions the two source files import from modules that are not among the sources
  (\<^verbatim>\<open>routing/match.js\<close>, \<^verbatim>\<open>path.js\<close>, \<^verbatim>\<open>render/index.js\<close>,
  \<^verbatim>\<open>render/core.js\<close>, \<^verbatim>\<open>render/ssr-element.js\<close>,
  \<^verbatim>\<open>middleware/callMiddleware.js\<close>, \<^verbatim>\<open>runtime/server/index.js\<close>,
  \<^verbatim>\<open>constants.js\<close>, the package \<^verbatim>\<open>mime\<close>) are parameters of the model.
  \<open>'h\<close> is the type of a middleware handler. The generic \<^verbatim>\<open>callMiddleware<R>\<close> is
  used at two types, \<^verbatim>\<open>Response\<close> for a page and
  \<^verbatim>\<open>Response | EndpointOutput\<close> for an endpoint: one field for each.
\<close>

record 'h Imports =
  ASTRO_VERSION :: string
  matchRoute :: "string \<Rightarrow> ManifestData \<Rightarrow> RouteData option"
  prependForwardSlash :: "string \<Rightarrow> string"
  removeTrailingForwardSlash :: "string \<Rightarrow> string"
  mime_getType :: "string \<Rightarrow> string option"
  isValueSerializable :: "jsval \<Rightarrow> bool"
  createStylesheetElementSet :: "string list \<Rightarrow> SSRElement list"
  createModuleScriptElement :: "string \<Rightarrow> SSRElement"
  createRenderContext :: "RenderContextArgs \<Rightarrow> RenderContext M"
  renderPage :: "ComponentInstance option \<Rightarrow> RenderContext \<Rightarrow> Environment \<Rightarrow> APIContext \<Rightarrow> Response M"
  renderEndpoint :: "ComponentInstance option \<Rightarrow> APIContext \<Rightarrow> bool \<Rightarrow> EndpointReturn M"
  callMiddleware :: "'h \<Rightarrow> APIContext \<Rightarrow> Response M \<Rightarrow> Response M"
  callMiddleware_endpoint :: "'h \<Rightarrow> APIContext \<Rightarrow> EndpointReturn M \<Rightarrow> EndpointReturn M"

section \<open>The endpoint invoker (\<^verbatim>\<open>call\<close>)\<close>

definition middleware_warning :: string where
  "middleware_warning =
     ''Middleware doesn't work for endpoints that return a simple body. The middleware will be disabled for this page.''"

definition headers_warning :: string where
  "headers_warning =
     ''Setting headers is not supported when returning an object. Please return an instance of Response. See https://docs.astro.build/en/core-concepts/endpoints/#server-endpoints-api-routes for more information.''"

definition encoding_warning :: string where
  "encoding_warning =
     [CHR 0x60] @ ''encoding'' @ [CHR 0x60] @
     '' is ignored in SSR. To return a charset other than UTF-8, please return an instance of Response. See https://docs.astro.build/en/core-concepts/endpoints/#server-endpoints-api-routes for more information.''"

text \<open>\<^verbatim>\<open>response.body === null\<close> on what the handler returned.\<close>

fun body_is_null :: "EndpointReturn \<Rightarrow> bool" where
  "body_is_null (a_Response r) = (body r = None)"
| "body_is_null (an_Output out) = False"

text \<open>The function \<^verbatim>\<open>call\<close> hands to \<^verbatim>\<open>callMiddleware\<close> as the last link of the
  chain.\<close>

definition call_next ::
  "'h Imports \<Rightarrow> Environment \<Rightarrow> RenderContext \<Rightarrow> APIContext \<Rightarrow> EndpointReturn \<Rightarrow> EndpointReturn M"
where
  "call_next imp env ctx context response =
     (if mode env = ''development'' then
        bindM (get_locals context) (\<lambda>l.
          if \<not> isValueSerializable imp l then throwM (LocalsNotSerializable (rc_pathname ctx))
          else returnM response)
      else returnM response)"

definition call ::
  "'h Imports \<Rightarrow> ComponentInstance option \<Rightarrow> Environment \<Rightarrow> RenderContext \<Rightarrow> LogOptions \<Rightarrow>
   'h AstroMiddlewareInstance option \<Rightarrow> EndpointCallResult M"
where
  "call imp the_mod env ctx logging_arg middleware_arg =
     bindM (createAPIContext (ASTRO_VERSION imp)
             \<lparr>arg_params = rc_params ctx, arg_site = env_site env, arg_props = rc_props ctx,
              arg_adapterName = env_adapterName env\<rparr>) (\<lambda>context.
     bindM (renderEndpoint imp the_mod context (ssr env)) (\<lambda>response0.
     bindM (case middleware_arg of
              None \<Rightarrow> returnM response0
            | Some mw \<Rightarrow>
                (case onRequest mw of
                   None \<Rightarrow> returnM response0
                 | Some h \<Rightarrow>
                     if body_is_null response0 then
                       callMiddleware_endpoint imp h context (call_next imp env ctx context response0)
                     else
                       bindM (warn (logging env) ''middleware'' middleware_warning)
                         (\<lambda>_. returnM response0))) (\<lambda>response.
     case response of
       a_Response r \<Rightarrow> returnM (type_response (attachToResponse r (cookies context)))
     | an_Output out \<Rightarrow>
         bindM (if ssr env then
                  (case the_mod of
                     None \<Rightarrow> throwM (TypeError ''mod is undefined'')
                   | Some m \<Rightarrow>
                       if \<not> mod_prerender m then
                         bindM (if out_has_headers out then warn logging_arg ''ssr'' headers_warning
                                else returnM ()) (\<lambda>_.
                           if truthy_string (out_encoding out)
                           then warn logging_arg ''ssr'' encoding_warning
                           else returnM ())
                       else returnM ())
                else returnM ()) (\<lambda>_.
           returnM (type_simple (out_body out) (out_encoding out) (cookies context))))))"

section \<open>The application (\<^verbatim>\<open>class App\<close>)\<close>

text \<open>The private fields of an \<^verbatim>\<open>App\<close>. \<open>routeDataToRouteInfo\<close> is the \<^verbatim>\<open>Map\<close>
  built from the manifest's routes (a later entry with the same key wins). The source
  keys it by the identity of the route object; here a route is its value, so the routes
  of a manifest are taken to be pairwise different.\<close>

record 'h App =
  env :: Environment
  manifest :: "'h SSRManifest"
  manifestData :: ManifestData
  routeDataToRouteInfo :: "RouteData \<Rightarrow> RouteInfo option"
  app_logging :: LogOptions
  base :: string
  baseWithoutTrailingSlash :: string

text \<open>The constructor. \<^verbatim>\<open>createEnvironment\<close> is handed the fields below and the
  environment is read back as given; the mode is always \<^verbatim>\<open>'production'\<close>.\<close>

definition new_App :: "'h Imports \<Rightarrow> 'h SSRManifest \<Rightarrow> bool \<Rightarrow> 'h App" where
  "new_App imp m streaming_arg =
     (let lg = \<lparr>dest = ''console'', level = ''info''\<rparr>;
          b = (if truthy_string (manifest_base m) then the (manifest_base m) else ''/'')
      in \<lparr>env = \<lparr>env_adapterName = manifest_adapterName m, logging = lg,
                  mode = ''production'', env_site = manifest_site m, ssr = True,
                  streaming = streaming_arg\<rparr>,
          manifest = m,
          manifestData = \<lparr>routes = map routeData (manifest_routes m)\<rparr>,
          routeDataToRouteInfo = map_of (rev (map (\<lambda>r. (routeData r, r)) (manifest_routes m))),
          app_logging = lg,
          base = b,
          baseWithoutTrailingSlash = removeTrailingForwardSlash imp b\<rparr>)"

definition removeBase :: "'h App \<Rightarrow> string \<Rightarrow> string" where
  "removeBase app pathname =
     (if prefix (base app) pathname
      then drop (length (baseWithoutTrailingSlash app) + 1) pathname
      else pathname)"

text \<open>\<^verbatim>\<open>match(request, { matchNotFound })\<close>; \<open>None\<close> is \<^verbatim>\<open>undefined\<close>.\<close>

definition match :: "'h Imports \<Rightarrow> 'h App \<Rightarrow> Request \<Rightarrow> bool \<Rightarrow> RouteData option" where
  "match imp app req matchNotFound =
     (if url_pathname req \<in> assets (manifest app) then None
      else
        let pathname = prependForwardSlash imp (removeBase app (url_pathname req)) in
        case matchRoute imp pathname (manifestData app) of
          Some rd \<Rightarrow> if prerender rd then None else Some rd
        | None \<Rightarrow>
            if matchNotFound then
              (case matchRoute imp ''/404'' (manifestData app) of
                 None \<Rightarrow> None
               | Some notFoundRouteData \<Rightarrow>
                   if prerender notFoundRouteData then None else Some notFoundRouteData)
            else None)"

text \<open>The loop over \<^verbatim>\<open>info.scripts\<close> in \<^verbatim>\<open>#renderPage\<close>.\<close>

fun script_elements :: "'h Imports \<Rightarrow> script list \<Rightarrow> SSRElement list" where
  "script_elements imp [] = []"
| "script_elements imp (staged stage children # rest) =
     (if stage = ''head-inline'' then inline_element children # script_elements imp rest
      else script_elements imp rest)"
| "script_elements imp (module_script src # rest) =
     createModuleScriptElement imp src # script_elements imp rest"

definition set_responseSent :: "unit M" where
  "set_responseSent w = Returns () (w\<lparr>request := (request w)\<lparr>responseSentSymbol := Some (JBool True)\<rparr>\<rparr>)"

text \<open>The body of the \<^verbatim>\<open>try\<close> block of \<^verbatim>\<open>#renderPage\<close>: the render context, the
  API context, the page renderer (behind the middleware when there is one), the mark on
  the request.\<close>

definition renderPage_try ::
  "'h Imports \<Rightarrow> 'h App \<Rightarrow> RouteInfo \<Rightarrow> string \<Rightarrow> RouteData \<Rightarrow> ComponentInstance option \<Rightarrow> nat \<Rightarrow>
   Response M"
where
  "renderPage_try imp app info pathname rd the_mod st =
     (\<lambda>w0.
       bindM (createRenderContext imp
               \<lparr>rca_origin = url_origin (request w0), rca_pathname = pathname,
                rca_componentMetadata = Some (componentMetadata (manifest app)),
                rca_scripts = script_elements imp (scripts info),
                rca_styles = createStylesheetElementSet imp (styles info),
                rca_route = rd, rca_status = st, rca_mod = the_mod, rca_env = env app\<rparr>)
         (\<lambda>renderContext.
       bindM (createAPIContext (ASTRO_VERSION imp)
               \<lparr>arg_params = rc_params renderContext, arg_site = env_site (env app),
                arg_props = rc_props renderContext,
                arg_adapterName = env_adapterName (env app)\<rparr>) (\<lambda>apiContext.
       bindM (case middleware (manifest app) of
                None \<Rightarrow> renderPage imp the_mod renderContext (env app) apiContext
              | Some mw \<Rightarrow>
                  (case onRequest mw of
                     None \<Rightarrow> renderPage imp the_mod renderContext (env app) apiContext
                   | Some h \<Rightarrow>
                       callMiddleware imp h apiContext
                         (renderPage imp the_mod renderContext (env app) apiContext)))
         (\<lambda>response.
       bindM set_responseSent (\<lambda>_. returnM response)))) w0)"

text \<open>The \<^verbatim>\<open>catch\<close> block of \<^verbatim>\<open>#renderPage\<close>. It logs
  \<^verbatim>\<open>err.stack || err.message || String(err)\<close> and answers 500 with a \<^verbatim>\<open>null\<close>
  body; reading \<^verbatim>\<open>err.stack\<close> throws when \<^verbatim>\<open>err\<close> is \<^verbatim>\<open>null\<close> or
  \<^verbatim>\<open>undefined\<close>, and that error leaves the method.\<close>

definition renderPage_catch :: "LogOptions \<Rightarrow> js_error \<Rightarrow> Response M" where
  "renderPage_catch opts err =
     (if has_properties err then
        bindM (error opts ''ssr'' err) (\<lambda>_.
          returnM \<lparr>status = 500, statusText = ''Internal server error'', headers = [],
                   body = None, astroCookies = None\<rparr>)
      else throwM (TypeError ''Cannot read properties of null or undefined''))"

text \<open>\<^verbatim>\<open>#renderPage\<close>. \<^verbatim>\<open>info.styles\<close> is read before the \<^verbatim>\<open>try\<close>: for a route
  that is not in the map this is a \<^verbatim>\<open>TypeError\<close> the method does not catch.\<close>

definition renderPage_private ::
  "'h Imports \<Rightarrow> 'h App \<Rightarrow> RouteData \<Rightarrow> ComponentInstance option \<Rightarrow> nat \<Rightarrow> Response M"
where
  "renderPage_private imp app rd the_mod st =
     (\<lambda>w0.
       let pathname = prependForwardSlash imp (removeBase app (url_pathname (request w0))) in
       case routeDataToRouteInfo app rd of
         None \<Rightarrow> Throws (TypeError ''info is undefined'') w0
       | Some info \<Rightarrow>
           tryM (renderPage_try imp app info pathname rd the_mod st)
             (renderPage_catch (app_logging app)) w0)"

text \<open>\<^verbatim>\<open>Number.prototype.toString\<close> on a length, and \<^verbatim>\<open>TextEncoder.encode\<close>: a
  string is kept as the bytes of its UTF-8 encoding.\<close>

fun digit_char :: "nat \<Rightarrow> char" where
  "digit_char n = (''0123456789'' ! n)"

function toString :: "nat \<Rightarrow> string" where
  "toString n = (if n < 10 then [digit_char n] else toString (n div 10) @ [digit_char (n mod 10)])"
  by pat_completeness auto
termination
  by (relation "measure id") auto

definition TextEncoder_encode :: "string \<Rightarrow> nat list" where
  "TextEncoder_encode s = map of_char s"

text \<open>The first half of \<^verbatim>\<open>#callEndpoint\<close>: the render context, and the result of the
  endpoint invoker.\<close>

definition callEndpoint_result ::
  "'h Imports \<Rightarrow> 'h App \<Rightarrow> RouteData \<Rightarrow> ComponentInstance option \<Rightarrow> nat \<Rightarrow> EndpointCallResult M"
where
  "callEndpoint_result imp app rd the_mod st =
     (\<lambda>w0.
       let pathname = ''/'' @ removeBase app (url_pathname (request w0)) in
       bindM (createRenderContext imp
               \<lparr>rca_origin = url_origin (request w0), rca_pathname = pathname,
                rca_componentMetadata = None, rca_scripts = [], rca_styles = [],
                rca_route = rd, rca_status = st, rca_mod = the_mod, rca_env = env app\<rparr>)
         (\<lambda>ctx.
           call imp the_mod (env app) ctx (app_logging app) (middleware (manifest app))) w0)"

text \<open>\<^verbatim>\<open>#callEndpoint\<close>. The call \<^verbatim>\<open>this.render(fourOhFourRequest, ...)\<close> is the
  argument \<open>rerender\<close>; from there on the request being served is the new one.\<close>

definition callEndpoint_private ::
  "'h Imports \<Rightarrow> 'h App \<Rightarrow> (RouteData option \<Rightarrow> Response M) \<Rightarrow> RouteData \<Rightarrow>
   ComponentInstance option \<Rightarrow> nat \<Rightarrow> Response M"
where
  "callEndpoint_private imp app rerender rd the_mod st =
     (\<lambda>w0.
       let url_path = url_pathname (request w0) in
       bindM (callEndpoint_result imp app rd the_mod st) (\<lambda>result.
         case result of
           type_response response \<Rightarrow>
             if Headers_get (headers response) ''X-Astro-Response'' = Some ''Not-Found'' then
               (\<lambda>w.
                 let fourOhFourRequest = new_Request (url_origin (request w)) ''/404'' in
                 case match imp app fourOhFourRequest False of
                   Some fourOhFourRouteData \<Rightarrow>
                     rerender (Some fourOhFourRouteData) (w\<lparr>request := fourOhFourRequest\<rparr>)
                 | None \<Rightarrow> Returns response w)
             else returnM response
         | type_simple body_arg encoding cookies_arg \<Rightarrow>
             let mimeType = mime_getType imp url_path;
                 headers0 =
                   (if truthy_string mimeType
                    then Headers_set [] ''Content-Type'' (the mimeType @ '';charset=utf-8'')
                    else Headers_set [] ''Content-Type'' ''text/plain;charset=utf-8'');
                 bytes = TextEncoder_encode body_arg;
                 headers1 = Headers_set headers0 ''Content-Length'' (toString (length bytes));
                 response =
                   \<lparr>status = 200, statusText = [], headers = headers1, body = Some bytes,
                    astroCookies = None\<rparr>
             in returnM (attachToResponse response cookies_arg)) w0)"

text \<open>The first lines of \<^verbatim>\<open>render\<close>: the route to serve and the default status, or
  \<open>None\<close> when the method answers 404 at once.\<close>

definition resolve_route ::
  "'h Imports \<Rightarrow> 'h App \<Rightarrow> RouteData option \<Rightarrow> Request \<Rightarrow> (RouteData \<times> nat) option"
where
  "resolve_route imp app routeData_arg req =
     (case routeData_arg of
        Some rd \<Rightarrow> Some (rd, 200)
      | None \<Rightarrow>
          (case match imp app req False of
             Some rd \<Rightarrow> Some (rd, 200)
           | None \<Rightarrow>
               (case match imp app req True of
                  Some rd \<Rightarrow> Some (rd, 404)
                | None \<Rightarrow> None)))"

text \<open>
  \<^verbatim>\<open>render(request, routeData)\<close>, on the request of the state. The method calls itself
  through \<^verbatim>\<open>#callEndpoint\<close>, and nothing bounds how often; the first argument bounds
  the depth of these calls, and a run that needs more does not return.
\<close>

fun render :: "nat \<Rightarrow> 'h Imports \<Rightarrow> 'h App \<Rightarrow> RouteData option \<Rightarrow> Response M" where
  "render 0 imp app routeData_arg = (\<lambda>w. Diverges)"
| "render (Suc n) imp app routeData_arg =
     (\<lambda>w.
       let req = request w;
           found = resolve_route imp app routeData_arg req
       in
       case found of
         None \<Rightarrow>
           Returns
             \<lparr>status = 404, statusText = ''Not found'', headers = [], body = None,
              astroCookies = None\<rparr> w
       | Some (rd, defaultStatus0) \<Rightarrow>
           let w1 = w\<lparr>request := req\<lparr>clientLocalsSymbol := Some (JObj [])\<rparr>\<rparr>;
               defaultStatus = (if route rd = ''/404'' then 404 else defaultStatus0);
               the_mod = pageMap (manifest app) (component rd)
           in
           if type rd = ''page'' then
             bindM (renderPage_private imp app rd the_mod defaultStatus) (\<lambda>response.
               if status response = 500 then
                 (case matchRoute imp ''/500'' (manifestData app) of
                    None \<Rightarrow> returnM response
                  | Some fiveHundredRouteData \<Rightarrow>
                      tryM (renderPage_private imp app fiveHundredRouteData
                              (pageMap (manifest app) (component fiveHundredRouteData)) 500)
                        (\<lambda>_. returnM response))
               else returnM response) w1
           else if type rd = ''endpoint'' then
             callEndpoint_private imp app (render n imp app) rd the_mod defaultStatus w1
           else Throws (Error (''Unsupported route type ['' @ type rd @ ''].'')) w1)"

section \<open>A sample application\<close>

text \<open>
  Concrete stand-ins for the imported functions, and a small manifest, on which the
  theorems below are instantiated. A middleware handler here is the value it assigns to
  \<^verbatim>\<open>context.locals\<close> before it returns \<^verbatim>\<open>next()\<close> (as the handler
  \<^verbatim>\<open>third\<close> of \<^verbatim>\<open>test/fixtures/middleware-dev/src/middleware.js\<close> does for
  \<^verbatim>\<open>/broken-locals\<close>). Routes are matched by their literal path.
\<close>

definition sample_matchRoute :: "string \<Rightarrow> ManifestData \<Rightarrow> RouteData option" where
  "sample_matchRoute pathname md = find (\<lambda>r. route r = pathname) (routes md)"

definition sample_isValueSerializable :: "jsval \<Rightarrow> bool" where
  "sample_isValueSerializable v =
     (case v of
        JObj kvs \<Rightarrow> list_all (\<lambda>kv. js_typeof (snd kv) \<noteq> ''function'') kvs
      | JFun f \<Rightarrow> False
      | JUndefined \<Rightarrow> False
      | JSymbol s \<Rightarrow> False
      | JBigInt n \<Rightarrow> False
      | _ \<Rightarrow> True)"

definition sample_callMiddleware :: "jsval \<Rightarrow> APIContext \<Rightarrow> 'a M \<Rightarrow> 'a M" where
  "sample_callMiddleware v context next = bindM (set_locals context v) (\<lambda>_. next)"

text \<open>A page whose module is \<^verbatim>\<open>broken\<close> throws an error, one whose module is
  \<^verbatim>\<open>rejects\<close> awaits a promise rejected without a reason; any other page renders
  its module's name with the status of the render context.\<close>

definition sample_renderPage ::
  "ComponentInstance option \<Rightarrow> RenderContext \<Rightarrow> Environment \<Rightarrow> APIContext \<Rightarrow> Response M"
where
  "sample_renderPage the_mod rc e context =
     (case the_mod of
        None \<Rightarrow> throwM (TypeError ''mod is undefined'')
      | Some m \<Rightarrow>
          if module_id m = ''broken'' then throwM (UserError ''boom'')
          else if module_id m = ''rejects'' then throwM (Thrown JUndefined)
          else returnM \<lparr>status = rc_status rc, statusText = [],
                         headers = Headers_set [] ''Content-Type'' ''text/html'',
                         body = Some (TextEncoder_encode (module_id m)),
                         astroCookies = Some (cookies context)\<rparr>)"

text \<open>The endpoint \<^verbatim>\<open>hi\<close> returns \<^verbatim>\<open>{body: 'hi'}\<close>, \<^verbatim>\<open>stream\<close> a response
  with a body, \<^verbatim>\<open>empty\<close> one without, and any other has no handler for the method:
  the response with the marker header.\<close>

definition sample_renderEndpoint ::
  "ComponentInstance option \<Rightarrow> APIContext \<Rightarrow> bool \<Rightarrow> EndpointReturn M"
where
  "sample_renderEndpoint the_mod context is_ssr =
     (case the_mod of
        None \<Rightarrow> throwM (TypeError ''mod is undefined'')
      | Some m \<Rightarrow>
          if module_id m = ''hi'' then
            returnM (an_Output \<lparr>out_body = ''hi'', out_encoding = None, out_has_headers = False\<rparr>)
          else if module_id m = ''stream'' then
            returnM (a_Response \<lparr>status = 200, statusText = [], headers = [],
                                  body = Some (TextEncoder_encode ''hello''),
                                  astroCookies = None\<rparr>)
          else if module_id m = ''empty'' then
            returnM (a_Response \<lparr>status = 204, statusText = [], headers = [], body = None,
                                  astroCookies = None\<rparr>)
          else
            returnM (a_Response \<lparr>status = 404, statusText = [],
                                  headers = Headers_set [] ''X-Astro-Response'' ''Not-Found'',
                                  body = None, astroCookies = None\<rparr>))"

definition sample_createRenderContext :: "RenderContextArgs \<Rightarrow> RenderContext M" where
  "sample_createRenderContext a =
     returnM \<lparr>rc_params = JObj [], rc_props = JObj [], rc_pathname = rca_pathname a,
              rc_status = rca_status a, rc_route = rca_route a\<rparr>"

definition sample_imports :: "jsval Imports" where
  "sample_imports =
     \<lparr>ASTRO_VERSION = ''2.4.0'',
      matchRoute = sample_matchRoute,
      prependForwardSlash = (\<lambda>p. if take 1 p = ''/'' then p else ''/'' @ p),
      removeTrailingForwardSlash = (\<lambda>p. if p \<noteq> [] \<and> last p = CHR ''/'' then butlast p else p),
      mime_getType =
        (\<lambda>p. if take 5 (rev p) = rev ''.json'' then Some ''application/json'' else None),
      isValueSerializable = sample_isValueSerializable,
      createStylesheetElementSet = map external_element,
      createModuleScriptElement = external_element,
      createRenderContext = sample_createRenderContext,
      renderPage = sample_renderPage,
      renderEndpoint = sample_renderEndpoint,
      callMiddleware = sample_callMiddleware,
      callMiddleware_endpoint = sample_callMiddleware\<rparr>"

definition sample_route :: "string \<Rightarrow> string \<Rightarrow> bool \<Rightarrow> string \<Rightarrow> RouteInfo" where
  "sample_route r t p c =
     \<lparr>routeData = \<lparr>route = r, type = t, prerender = p, component = c\<rparr>, styles = [],
      scripts = []\<rparr>"

definition sample_manifest ::
  "RouteInfo list \<Rightarrow> jsval AstroMiddlewareInstance option \<Rightarrow> jsval SSRManifest"
where
  "sample_manifest rs mw =
     \<lparr>manifest_routes = rs, manifest_adapterName = Some ''node'', manifest_base = None,
      manifest_site = None, assets = {''/favicon.ico''},
      pageMap = (\<lambda>c. Some \<lparr>module_id = c, mod_prerender = False\<rparr>),
      middleware = mw, componentMetadata = []\<rparr>"

definition sample_app ::
  "RouteInfo list \<Rightarrow> jsval AstroMiddlewareInstance option \<Rightarrow> jsval App"
where
  "sample_app rs mw = new_App sample_imports (sample_manifest rs mw) True"

definition sample_world :: "string \<Rightarrow> World" where
  "sample_world path =
     \<lparr>request = new_Request ''http://example.com'' path, jars = [], logs = []\<rparr>"

definition sample_env :: "string \<Rightarrow> Environment" where
  "sample_env m =
     \<lparr>env_adapterName = None, logging = \<lparr>dest = ''console'', level = ''info''\<rparr>, mode = m,
      env_site = None, ssr = True, streaming = True\<rparr>"

definition sample_renderContext :: "string \<Rightarrow> RenderContext" where
  "sample_renderContext p =
     \<lparr>rc_params = JObj [], rc_props = JObj [], rc_pathname = p, rc_status = 200,
      rc_route = \<lparr>route = p, type = ''endpoint'', prerender = False, component = ''api''\<rparr>\<rparr>"

definition sample_context :: "string \<Rightarrow> APIContext" where
  "sample_context p =
     \<lparr>cookies = 0, params = JObj [], site = None, generator = ''Astro v2.4.0'',
      props = JObj [], url = ''http://example.com'' @ p, adapterName = None\<rparr>"

text \<open>A state of the sample application: the path of the request, the value of its
  \<^verbatim>\<open>locals\<close> property, the cookie jars, the logger's calls.\<close>

definition sample_state ::
  "string \<Rightarrow> jsval option \<Rightarrow> (string \<times> string) list list \<Rightarrow> LogCall list \<Rightarrow> World"
where
  "sample_state p l js lg =
     \<lparr>request =
        \<lparr>url_origin = ''http://example.com'', url_pathname = p, clientAddressSymbol = None,
         clientLocalsSymbol = l, responseSentSymbol = None\<rparr>,
      jars = js, logs = lg\<rparr>"

section \<open>Facts used throughout\<close>

lemmas monad_defs = bindM_def tryM_def returnM_def throwM_def

lemmas sample_defs =
  sample_app_def sample_imports_def sample_world_def sample_route_def sample_manifest_def
  sample_matchRoute_def sample_createRenderContext_def sample_renderPage_def
  sample_renderEndpoint_def sample_callMiddleware_def sample_isValueSerializable_def
  sample_env_def sample_renderContext_def sample_context_def sample_state_def
  new_App_def new_Request_def Let_def

lemmas run_defs =
  resolve_route_def match_def removeBase_def renderPage_private_def renderPage_try_def
  callEndpoint_private_def callEndpoint_result_def call_def call_next_def
  createAPIContext_def new_AstroCookies_def set_responseSent_def error_def warn_def
  get_locals_def set_locals_def attachToResponse_def renderPage_catch_def
  Headers_set_def Headers_get_def lower_char_def TextEncoder_encode_def
  middleware_warning_def

text \<open>\<^verbatim>\<open>createAPIContext\<close> always returns: the context it builds, and a state with one
  more cookie jar.\<close>

lemma createAPIContext_returns:
  "createAPIContext v args w =
     Returns
       \<lparr>cookies = length (jars w), params = arg_params args,
        site = (if truthy_string (arg_site args) then arg_site args else None),
        generator = ''Astro v'' @ v, props = arg_props args,
        url = url_origin (request w) @ url_pathname (request w),
        adapterName = arg_adapterName args\<rparr>
       (w\<lparr>jars := jars w @ [[]]\<rparr>)"
  by (simp add: createAPIContext_def new_AstroCookies_def bindM_def)

text \<open>A route of the manifest has its entry in the map the constructor builds.\<close>

lemma manifest_route_has_info:
  assumes "rd \<in> set (routes (manifestData (new_App imp m s)))"
  shows "\<exists>info. routeDataToRouteInfo (new_App imp m s) rd = Some info"
proof -
  from assms have "rd \<in> fst ` set (rev (map (\<lambda>r. (routeData r, r)) (manifest_routes m)))"
    by (force simp: new_App_def Let_def)
  then have "map_of (rev (map (\<lambda>r. (routeData r, r)) (manifest_routes m))) rd \<noteq> None"
    by (simp only: map_of_eq_None_iff not_not)
  then show ?thesis
    by (auto simp: new_App_def Let_def)
qed

text \<open>A failure inside the \<^verbatim>\<open>try\<close> block of \<^verbatim>\<open>#renderPage\<close> is logged and
  answered with the bodiless 500 response, when the thrown value is one whose properties
  can be read; otherwise the \<^verbatim>\<open>catch\<close> block throws itself.\<close>

lemma renderPage_private_failure:
  assumes "routeDataToRouteInfo app rd = Some info"
    and "renderPage_try imp app info
           (prependForwardSlash imp (removeBase app (url_pathname (request w)))) rd the_mod st w
         = Throws e w'"
    and "has_properties e"
  shows "renderPage_private imp app rd the_mod st w =
           Returns
             \<lparr>status = 500, statusText = ''Internal server error'', headers = [], body = None,
              astroCookies = None\<rparr>
             (w'\<lparr>logs := logs w' @ [error_call (app_logging app) ''ssr'' e]\<rparr>)"
  using assms
  by (simp add: renderPage_private_def renderPage_catch_def tryM_def bindM_def error_def
      returnM_def)

lemma renderPage_private_rejects:
  assumes "routeDataToRouteInfo app rd = Some info"
    and "renderPage_try imp app info
           (prependForwardSlash imp (removeBase app (url_pathname (request w)))) rd the_mod st w
         = Throws e w'"
    and "\<not> has_properties e"
  shows "renderPage_private imp app rd the_mod st w =
           Throws (TypeError ''Cannot read properties of null or undefined'') w'"
  using assms
  by (simp add: renderPage_private_def renderPage_catch_def tryM_def throwM_def)

section \<open>Properties of the redirect guard\<close>

text \<open>
  Claim C8. \<^verbatim>\<open>throwIfRedirectNotAllowed\<close> throws the configuration error
  \<^verbatim>\<open>StaticRedirectNotAvailable\<close> exactly when the status of the response lies in
  300..399 and the configured output is not \<^verbatim>\<open>'server'\<close>; for any other status, and
  for any status in server output, it returns.
\<close>

theorem throwIfRedirectNotAllowed_exactly:
  "throwIfRedirectNotAllowed response config =
     (if 300 \<le> status response \<and> status response \<le> 399 \<and> config_output config \<noteq> ''server''
      then Inl StaticRedirectNotAvailable else Inr ())"
  by (auto simp: throwIfRedirectNotAllowed_def isRedirect_def)

section \<open>Properties of the accessors of the request context\<close>

text \<open>
  Claim C7. For a context made by \<^verbatim>\<open>createAPIContext\<close>, read in any later state:
  when the request carries the client address, \<^verbatim>\<open>clientAddress\<close> returns it; when it
  does not, the getter throws \<^verbatim>\<open>ClientAddressNotAvailable\<close> for the adapter's name if a
  (non-empty) adapter name was given, and \<^verbatim>\<open>StaticClientAddressNotAvailable\<close> if none
  was (the empty name is falsy and counts as none).
\<close>

theorem clientAddress_of_created_context:
  assumes "returned (createAPIContext v args w0) = Some context"
  shows "get_clientAddress context w =
     (case clientAddressSymbol (request w) of
        Some a \<Rightarrow> Returns a w
      | None \<Rightarrow>
          (case arg_adapterName args of
             None \<Rightarrow> Throws StaticClientAddressNotAvailable w
           | Some name \<Rightarrow>
               if name = [] then Throws StaticClientAddressNotAvailable w
               else Throws (ClientAddressNotAvailable name) w))"
proof -
  from assms have "adapterName context = arg_adapterName args"
    by (auto simp: createAPIContext_returns)
  then show ?thesis
    by (simp add: get_clientAddress_def split: option.splits)
qed

theorem clientAddress_of_created_context_witness:
  "returned (createAPIContext ''2.4.0''
      \<lparr>arg_params = JObj [], arg_site = None, arg_props = JObj [], arg_adapterName = Some ''node''\<rparr>
      (sample_world ''/'')) =
     Some \<lparr>cookies = 0, params = JObj [], site = None, generator = ''Astro v2.4.0'',
           props = JObj [], url = ''http://example.com/'', adapterName = Some ''node''\<rparr>
   \<and> get_clientAddress
        \<lparr>cookies = 0, params = JObj [], site = None, generator = ''Astro v2.4.0'',
         props = JObj [], url = ''http://example.com/'', adapterName = Some ''node''\<rparr>
        (sample_world ''/'') =
       Throws (ClientAddressNotAvailable ''node'') (sample_world ''/'')"
proof -
  have h: "returned (createAPIContext ''2.4.0''
      \<lparr>arg_params = JObj [], arg_site = None, arg_props = JObj [], arg_adapterName = Some ''node''\<rparr>
      (sample_world ''/'')) =
     Some \<lparr>cookies = 0, params = JObj [], site = None, generator = ''Astro v2.4.0'',
           props = JObj [], url = ''http://example.com/'', adapterName = Some ''node''\<rparr>"
    by (simp add: createAPIContext_returns sample_world_def new_Request_def)
  show ?thesis
    using h clientAddress_of_created_context [OF h, of "sample_world ''/''"]
    by (simp add: sample_world_def new_Request_def)
qed

text \<open>The setter of \<^verbatim>\<open>locals\<close> decides by \<^verbatim>\<open>typeof\<close> alone: the number 5 is refused,
  the object \<^verbatim>\<open>{a: 1}\<close> is stored and read back.\<close>

lemma locals_setter_typeof:
  "set_locals context val w =
     (if js_typeof val = ''object''
      then Returns () (w\<lparr>request := (request w)\<lparr>clientLocalsSymbol := Some val\<rparr>\<rparr>)
      else Throws LocalsNotAnObject w)"
  by (simp add: set_locals_def)

lemma locals_setter_examples:
  "set_locals context (JNum 5) w = Throws LocalsNotAnObject w"
  "bindM (set_locals context (JObj [(''a'', JNum 1)])) (\<lambda>_. get_locals context) w =
     Returns (JObj [(''a'', JNum 1)])
       (w\<lparr>request := (request w)\<lparr>clientLocalsSymbol := Some (JObj [(''a'', JNum 1)])\<rparr>\<rparr>)"
  by (simp_all add: set_locals_def get_locals_def bindM_def)

text \<open>
  Claim C2. The claim has every non-object value refused. \<^verbatim>\<open>null\<close> is not an object,
  but \<^verbatim>\<open>typeof null\<close> is \<^verbatim>\<open>'object'\<close>: on a context made by
  \<^verbatim>\<open>createAPIContext\<close>, assigning \<^verbatim>\<open>null\<close> to \<^verbatim>\<open>locals\<close> does not throw, and
  \<^verbatim>\<open>locals\<close> then reads \<^verbatim>\<open>null\<close>.
\<close>

theorem locals_setter_accepts_null:
  "bindM (createAPIContext v args)
     (\<lambda>context. bindM (set_locals context JNull) (\<lambda>_. get_locals context)) w =
   Returns JNull
     (w\<lparr>jars := jars w @ [[]], request := (request w)\<lparr>clientLocalsSymbol := Some JNull\<rparr>\<rparr>)"
  by (simp add: createAPIContext_returns bindM_def set_locals_def get_locals_def)

section \<open>Properties of the endpoint invoker\<close>

text \<open>
  Claim C4. The claim has no warning for a \<^verbatim>\<open>Response\<close> that carries a body. In
  \<^verbatim>\<open>call\<close>, with an \<^verbatim>\<open>onRequest\<close> hook configured, a handler that returns a
  \<^verbatim>\<open>Response\<close> with a body takes the \<^verbatim>\<open>else\<close> branch: the runner is bypassed and
  the warning about simple bodies is logged all the same.
\<close>

theorem response_with_body_is_warned:
  assumes mw: "middleware_arg = Some mw" "onRequest mw = Some h"
    and made: "createAPIContext (ASTRO_VERSION imp)
                 \<lparr>arg_params = rc_params ctx, arg_site = env_site e, arg_props = rc_props ctx,
                  arg_adapterName = env_adapterName e\<rparr> w = Returns apiContext w1"
    and handler: "renderEndpoint imp the_mod apiContext (ssr e) w1 = Returns (a_Response r) w2"
    and has_body: "body r = Some b"
  shows "call imp the_mod e ctx lg middleware_arg w =
           Returns (type_response (attachToResponse r (cookies apiContext)))
             (w2\<lparr>logs := logs w2 @ [warn_call (logging e) ''middleware'' middleware_warning]\<rparr>)"
  using assms by (simp add: call_def bindM_def returnM_def warn_def)

theorem response_with_body_is_warned_witness:
  "call sample_imports (Some \<lparr>module_id = ''stream'', mod_prerender = False\<rparr>)
     (sample_env ''production'') (sample_renderContext ''/stream'')
     \<lparr>dest = ''console'', level = ''info''\<rparr> (Some \<lparr>onRequest = Some (JObj [])\<rparr>)
     (sample_state ''/stream'' None [] []) =
   Returns
     (type_response
        \<lparr>status = 200, statusText = [], headers = [], body = Some (TextEncoder_encode ''hello''),
         astroCookies = Some 0\<rparr>)
     (sample_state ''/stream'' None [[]]
        [warn_call \<lparr>dest = ''console'', level = ''info''\<rparr> ''middleware'' middleware_warning])"
  using response_with_body_is_warned
    [where imp = sample_imports
       and the_mod = "Some \<lparr>module_id = ''stream'', mod_prerender = False\<rparr>"
       and e = "sample_env ''production''" and ctx = "sample_renderContext ''/stream''"
       and lg = "\<lparr>dest = ''console'', level = ''info''\<rparr>"
       and middleware_arg = "Some \<lparr>onRequest = Some (JObj [])\<rparr>"
       and mw = "\<lparr>onRequest = Some (JObj [])\<rparr>" and h = "JObj []"
       and w = "sample_state ''/stream'' None [] []"
       and apiContext = "sample_context ''/stream''"
       and ?w1.0 = "sample_state ''/stream'' None [[]] []"
       and r = "\<lparr>status = 200, statusText = [], headers = [],
                 body = Some (TextEncoder_encode ''hello''), astroCookies = None\<rparr>"
       and ?w2.0 = "sample_state ''/stream'' None [[]] []"
       and b = "TextEncoder_encode ''hello''"]
  by (simp add: sample_defs createAPIContext_returns monad_defs attachToResponse_def)

text \<open>
  Claim C9. The last link \<^verbatim>\<open>call\<close> hands to the runner checks \<^verbatim>\<open>locals\<close> only in
  development: there, a value that is not serializable makes it throw
  \<^verbatim>\<open>LocalsNotSerializable\<close> (for the pathname of the render apiContext) instead of
  returning the handler's response; in any other mode it returns the response whatever
  \<^verbatim>\<open>locals\<close> holds. So when the handler's response has no body and the runner reaches
  that link with a \<^verbatim>\<open>locals\<close> that is not serializable, \<^verbatim>\<open>call\<close> throws in
  development and returns the response otherwise.
\<close>

theorem locals_checked_in_development_only:
  assumes mw: "middleware_arg = Some mw" "onRequest mw = Some h"
    and made: "createAPIContext (ASTRO_VERSION imp)
                 \<lparr>arg_params = rc_params ctx, arg_site = env_site e, arg_props = rc_props ctx,
                  arg_adapterName = env_adapterName e\<rparr> w = Returns apiContext w1"
    and handler: "renderEndpoint imp the_mod apiContext (ssr e) w1 = Returns (a_Response r) w2"
    and no_body: "body r = None"
    and runner: "callMiddleware_endpoint imp h apiContext (call_next imp e ctx apiContext (a_Response r)) w2
                 = call_next imp e ctx apiContext (a_Response r) w3"
    and bad: "\<not> isValueSerializable imp (Reflect_get (clientLocalsSymbol (request w3)))"
  shows "call_next imp e ctx apiContext response w' =
           (if mode e = ''development'' \<and>
               \<not> isValueSerializable imp (Reflect_get (clientLocalsSymbol (request w')))
            then Throws (LocalsNotSerializable (rc_pathname ctx)) w'
            else Returns response w')
       \<and> call imp the_mod e ctx lg middleware_arg w =
           (if mode e = ''development'' then Throws (LocalsNotSerializable (rc_pathname ctx)) w3
            else Returns (type_response (attachToResponse r (cookies apiContext))) w3)"
proof -
  have nxt: "call_next imp e ctx apiContext resp v =
           (if mode e = ''development'' \<and>
               \<not> isValueSerializable imp (Reflect_get (clientLocalsSymbol (request v)))
            then Throws (LocalsNotSerializable (rc_pathname ctx)) v
            else Returns resp v)" for resp v
    by (simp add: call_next_def get_locals_def monad_defs)
  have "call imp the_mod e ctx lg middleware_arg w =
          bindM (callMiddleware_endpoint imp h apiContext (call_next imp e ctx apiContext (a_Response r)))
            (\<lambda>response. case response of
                a_Response r' \<Rightarrow> returnM (type_response (attachToResponse r' (cookies apiContext)))
              | an_Output out \<Rightarrow>
                  bindM (if ssr e then
                    (case the_mod of
                       None \<Rightarrow> throwM (TypeError ''mod is undefined'')
                     | Some m \<Rightarrow>
                         if \<not> mod_prerender m then
                           bindM (if out_has_headers out then warn lg ''ssr'' headers_warning
                                  else returnM ()) (\<lambda>_.
                             if truthy_string (out_encoding out)
                             then warn lg ''ssr'' encoding_warning
                             else returnM ())
                         else returnM ())
                  else returnM ()) (\<lambda>_.
                    returnM (type_simple (out_body out) (out_encoding out) (cookies apiContext)))) w2"
    using mw made handler no_body by (simp add: call_def bindM_def)
  also have "\<dots> =
          (if mode e = ''development'' then Throws (LocalsNotSerializable (rc_pathname ctx)) w3
            else Returns (type_response (attachToResponse r (cookies apiContext))) w3)"
    using runner bad by (simp add: bindM_def nxt returnM_def)
  finally show ?thesis using nxt by simp
qed

theorem locals_checked_in_development_only_witness:
  "call sample_imports (Some \<lparr>module_id = ''empty'', mod_prerender = False\<rparr>)
     (sample_env ''development'') (sample_renderContext ''/broken-locals'')
     \<lparr>dest = ''console'', level = ''info''\<rparr>
     (Some \<lparr>onRequest = Some (JObj [(''fn'', JFun ''fn'')])\<rparr>)
     (sample_state ''/broken-locals'' None [] []) =
   Throws (LocalsNotSerializable ''/broken-locals'')
     (sample_state ''/broken-locals'' (Some (JObj [(''fn'', JFun ''fn'')])) [[]] [])
   \<and> call sample_imports (Some \<lparr>module_id = ''empty'', mod_prerender = False\<rparr>)
     (sample_env ''production'') (sample_renderContext ''/broken-locals'')
     \<lparr>dest = ''console'', level = ''info''\<rparr>
     (Some \<lparr>onRequest = Some (JObj [(''fn'', JFun ''fn'')])\<rparr>)
     (sample_state ''/broken-locals'' None [] []) =
   Returns
     (type_response
        \<lparr>status = 204, statusText = [], headers = [], body = None, astroCookies = Some 0\<rparr>)
     (sample_state ''/broken-locals'' (Some (JObj [(''fn'', JFun ''fn'')])) [[]] [])"
  using locals_checked_in_development_only
    [where imp = sample_imports
       and the_mod = "Some \<lparr>module_id = ''empty'', mod_prerender = False\<rparr>"
       and e = "sample_env ''development''" and ctx = "sample_renderContext ''/broken-locals''"
       and lg = "\<lparr>dest = ''console'', level = ''info''\<rparr>"
       and middleware_arg = "Some \<lparr>onRequest = Some (JObj [(''fn'', JFun ''fn'')])\<rparr>"
       and mw = "\<lparr>onRequest = Some (JObj [(''fn'', JFun ''fn'')])\<rparr>"
       and h = "JObj [(''fn'', JFun ''fn'')]"
       and w = "sample_state ''/broken-locals'' None [] []"
       and apiContext = "sample_context ''/broken-locals''"
       and ?w1.0 = "sample_state ''/broken-locals'' None [[]] []"
       and r = "\<lparr>status = 204, statusText = [], headers = [], body = None,
                 astroCookies = None\<rparr>"
       and ?w2.0 = "sample_state ''/broken-locals'' None [[]] []"
       and ?w3.0 = "sample_state ''/broken-locals'' (Some (JObj [(''fn'', JFun ''fn'')])) [[]] []"]
    locals_checked_in_development_only
    [where imp = sample_imports
       and the_mod = "Some \<lparr>module_id = ''empty'', mod_prerender = False\<rparr>"
       and e = "sample_env ''production''" and ctx = "sample_renderContext ''/broken-locals''"
       and lg = "\<lparr>dest = ''console'', level = ''info''\<rparr>"
       and middleware_arg = "Some \<lparr>onRequest = Some (JObj [(''fn'', JFun ''fn'')])\<rparr>"
       and mw = "\<lparr>onRequest = Some (JObj [(''fn'', JFun ''fn'')])\<rparr>"
       and h = "JObj [(''fn'', JFun ''fn'')]"
       and w = "sample_state ''/broken-locals'' None [] []"
       and apiContext = "sample_context ''/broken-locals''"
       and ?w1.0 = "sample_state ''/broken-locals'' None [[]] []"
       and r = "\<lparr>status = 204, statusText = [], headers = [], body = None,
                 astroCookies = None\<rparr>"
       and ?w2.0 = "sample_state ''/broken-locals'' None [[]] []"
       and ?w3.0 = "sample_state ''/broken-locals'' (Some (JObj [(''fn'', JFun ''fn'')])) [[]] []"]
  by (simp add: sample_defs createAPIContext_returns monad_defs attachToResponse_def
      call_next_def get_locals_def set_locals_def)

section \<open>Properties of matching and the 404 response\<close>

text \<open>
  Claim C10. When the pathname of the request matches a route that is pre-rendered,
  \<^verbatim>\<open>match\<close> returns \<^verbatim>\<open>undefined\<close> with and without \<^verbatim>\<open>matchNotFound\<close>,
  whatever the route table holds for \<^verbatim>\<open>/404\<close>; \<^verbatim>\<open>render\<close>, called without a
  route, then returns the response with status 404, status text \<^verbatim>\<open>Not found\<close>, no
  header and no body, and leaves the request untouched.
\<close>

theorem prerendered_route_is_not_found:
  assumes hit: "matchRoute imp (prependForwardSlash imp (removeBase app (url_pathname (request w))))
                  (manifestData app) = Some rd"
    and pre: "prerender rd"
  shows "match imp app (request w) True = None
       \<and> match imp app (request w) False = None
       \<and> render (Suc n) imp app None w =
           Returns
             \<lparr>status = 404, statusText = ''Not found'', headers = [], body = None,
              astroCookies = None\<rparr> w"
proof -
  have m: "match imp app (request w) b = None" for b
    using hit pre by (simp add: match_def)
  then have "resolve_route imp app None (request w) = None"
    by (simp add: resolve_route_def)
  then have "render (Suc n) imp app None w =
           Returns
             \<lparr>status = 404, statusText = ''Not found'', headers = [], body = None,
              astroCookies = None\<rparr> w"
    by simp
  with m show ?thesis by simp
qed

theorem prerendered_route_is_not_found_witness:
  "match sample_imports
     (sample_app [sample_route ''/about'' ''page'' True ''about'',
                  sample_route ''/404'' ''page'' False ''notfound''] None)
     (request (sample_world ''/about'')) True = None
   \<and> render (Suc 0) sample_imports
     (sample_app [sample_route ''/about'' ''page'' True ''about'',
                  sample_route ''/404'' ''page'' False ''notfound''] None)
     None (sample_world ''/about'') =
     Returns
       \<lparr>status = 404, statusText = ''Not found'', headers = [], body = None,
        astroCookies = None\<rparr> (sample_world ''/about'')"
  using prerendered_route_is_not_found
    [where imp = sample_imports
       and app = "sample_app [sample_route ''/about'' ''page'' True ''about'',
                              sample_route ''/404'' ''page'' False ''notfound''] None"
       and w = "sample_world ''/about''"
       and rd = "\<lparr>route = ''/about'', type = ''page'', prerender = True, component = ''about''\<rparr>"
       and n = 0]
  by (simp add: sample_defs removeBase_def)

text \<open>
  Claim C3. When the pathname of the request matches no route, \<^verbatim>\<open>match\<close> with
  \<^verbatim>\<open>matchNotFound\<close> answers with the lookup of \<^verbatim>\<open>/404\<close> (unless the path is one
  of the public assets, which \<^verbatim>\<open>match\<close> ignores before it looks at any route), and
  reports no match when the route found for \<^verbatim>\<open>/404\<close> is pre-rendered; in that case
  \<^verbatim>\<open>render\<close> returns the response with status 404, status text \<^verbatim>\<open>Not found\<close>,
  no header and no body.
\<close>

theorem no_route_then_not_found_lookup:
  assumes miss: "matchRoute imp (prependForwardSlash imp (removeBase app (url_pathname (request w))))
                  (manifestData app) = None"
  shows "match imp app (request w) True =
           (if url_pathname (request w) \<in> assets (manifest app) then None
            else case matchRoute imp ''/404'' (manifestData app) of
                   None \<Rightarrow> None
                 | Some nf \<Rightarrow> if prerender nf then None else Some nf)
       \<and> ((\<exists>nf. matchRoute imp ''/404'' (manifestData app) = Some nf \<and> prerender nf) \<longrightarrow>
             match imp app (request w) True = None
           \<and> render (Suc n) imp app None w =
               Returns
                 \<lparr>status = 404, statusText = ''Not found'', headers = [], body = None,
                  astroCookies = None\<rparr> w)"
proof -
  have a: "match imp app (request w) True =
           (if url_pathname (request w) \<in> assets (manifest app) then None
            else case matchRoute imp ''/404'' (manifestData app) of
                   None \<Rightarrow> None
                 | Some nf \<Rightarrow> if prerender nf then None else Some nf)"
    using miss by (simp add: match_def)
  have f: "match imp app (request w) False = None"
    using miss by (simp add: match_def)
  have b: "match imp app (request w) True = None
         \<and> render (Suc n) imp app None w =
             Returns
               \<lparr>status = 404, statusText = ''Not found'', headers = [], body = None,
                astroCookies = None\<rparr> w"
    if nf: "matchRoute imp ''/404'' (manifestData app) = Some nf" "prerender nf" for nf
  proof -
    have t: "match imp app (request w) True = None"
      using a nf by simp
    from f t have "resolve_route imp app None (request w) = None"
      by (simp add: resolve_route_def)
    then have "render (Suc n) imp app None w =
             Returns
               \<lparr>status = 404, statusText = ''Not found'', headers = [], body = None,
                astroCookies = None\<rparr> w"
      by simp
    with t show ?thesis by simp
  qed
  from a b show ?thesis by blast
qed

theorem no_route_then_not_found_lookup_witness:
  "match sample_imports
     (sample_app [sample_route ''/'' ''page'' False ''index'',
                  sample_route ''/404'' ''page'' True ''notfound''] None)
     (request (sample_world ''/missing'')) True = None
   \<and> render (Suc 0) sample_imports
     (sample_app [sample_route ''/'' ''page'' False ''index'',
                  sample_route ''/404'' ''page'' True ''notfound''] None)
     None (sample_world ''/missing'') =
     Returns
       \<lparr>status = 404, statusText = ''Not found'', headers = [], body = None,
        astroCookies = None\<rparr> (sample_world ''/missing'')"
  using no_route_then_not_found_lookup
    [where imp = sample_imports
       and app = "sample_app [sample_route ''/'' ''page'' False ''index'',
                              sample_route ''/404'' ''page'' True ''notfound''] None"
       and w = "sample_world ''/missing''" and n = 0]
  by (simp add: sample_defs removeBase_def)

section \<open>The fallback to the 500 page\<close>

text \<open>
  A page route is being served and the \<^verbatim>\<open>try\<close> block of its \<^verbatim>\<open>#renderPage\<close>
  throws a value whose properties can be read. Then \<^verbatim>\<open>render\<close> looks \<^verbatim>\<open>/500\<close> up
  once: without such a route it returns the response with status 500 and no body; with
  one it runs \<^verbatim>\<open>#renderPage\<close> on it, once, with status 500, and returns what that
  render returns; if that render fails too, in whatever way, the result is again the
  response with status 500 and no body.
\<close>

lemma readable_failure_falls_back_once:
  assumes found: "resolve_route imp app routeData_arg (request w) = Some (rd, st0)"
    and page: "type rd = ''page''"
    and info: "routeDataToRouteInfo app rd = Some info"
    and w1: "w1 = w\<lparr>request := (request w)\<lparr>clientLocalsSymbol := Some (JObj [])\<rparr>\<rparr>"
    and fails: "renderPage_try imp app info
                  (prependForwardSlash imp (removeBase app (url_pathname (request w1)))) rd
                  (pageMap (manifest app) (component rd))
                  (if route rd = ''/404'' then 404 else st0) w1 = Throws e w2"
    and readable: "has_properties e"
    and w3: "w3 = w2\<lparr>logs := logs w2 @ [error_call (app_logging app) ''ssr'' e]\<rparr>"
    and r500: "r500 = \<lparr>status = 500, statusText = ''Internal server error'', headers = [],
                       body = None, astroCookies = None\<rparr>"
  shows "render (Suc n) imp app routeData_arg w =
     (case matchRoute imp ''/500'' (manifestData app) of
        None \<Rightarrow> Returns r500 w3
      | Some r5 \<Rightarrow>
          (case routeDataToRouteInfo app r5 of
             None \<Rightarrow> Returns r500 w3
           | Some info5 \<Rightarrow>
               (case renderPage_try imp app info5
                       (prependForwardSlash imp (removeBase app (url_pathname (request w3)))) r5
                       (pageMap (manifest app) (component r5)) 500 w3 of
                  Returns resp w4 \<Rightarrow> Returns resp w4
                | Throws e' w4 \<Rightarrow>
                    Returns r500
                      (if has_properties e'
                       then w4\<lparr>logs := logs w4 @ [error_call (app_logging app) ''ssr'' e']\<rparr>
                       else w4)
                | Diverges \<Rightarrow> Diverges)))"
proof -
  have first: "renderPage_private imp app rd (pageMap (manifest app) (component rd))
                 (if route rd = ''/404'' then 404 else st0) w1 = Returns r500 w3"
    using renderPage_private_failure [OF info fails readable] w3 r500 by simp
  have "render (Suc n) imp app routeData_arg w =
          (case matchRoute imp ''/500'' (manifestData app) of
             None \<Rightarrow> Returns r500 w3
           | Some r5 \<Rightarrow>
               tryM (renderPage_private imp app r5 (pageMap (manifest app) (component r5)) 500)
                 (\<lambda>_. returnM r500) w3)"
    using found page w1 first r500
    by (simp add: Let_def bindM_def returnM_def split: option.splits)
  also have "\<dots> =
     (case matchRoute imp ''/500'' (manifestData app) of
        None \<Rightarrow> Returns r500 w3
      | Some r5 \<Rightarrow>
          (case routeDataToRouteInfo app r5 of
             None \<Rightarrow> Returns r500 w3
           | Some info5 \<Rightarrow>
               (case renderPage_try imp app info5
                       (prependForwardSlash imp (removeBase app (url_pathname (request w3)))) r5
                       (pageMap (manifest app) (component r5)) 500 w3 of
                  Returns resp w4 \<Rightarrow> Returns resp w4
                | Throws e' w4 \<Rightarrow>
                    Returns r500
                      (if has_properties e'
                       then w4\<lparr>logs := logs w4 @ [error_call (app_logging app) ''ssr'' e']\<rparr>
                       else w4)
                | Diverges \<Rightarrow> Diverges)))"
    using r500
    by (simp add: renderPage_private_def renderPage_catch_def tryM_def bindM_def error_def
        returnM_def throwM_def Let_def split: option.splits res.splits)
  finally show ?thesis .
qed

text \<open>
  Claim C1. The claim has every failure of a page render answered by the fallback. When
  the \<^verbatim>\<open>try\<close> block of \<^verbatim>\<open>#renderPage\<close> throws \<^verbatim>\<open>null\<close> or
  \<^verbatim>\<open>undefined\<close>, the \<^verbatim>\<open>catch\<close> block fails on \<^verbatim>\<open>err.stack\<close>; the first call
  of \<^verbatim>\<open>#renderPage\<close> in \<^verbatim>\<open>render\<close> stands in no \<^verbatim>\<open>try\<close>, so \<^verbatim>\<open>render\<close>
  throws that \<^verbatim>\<open>TypeError\<close>: nothing is logged, \<^verbatim>\<open>/500\<close> is not looked up, and no
  response with status 500 is returned, whatever the route table holds for \<^verbatim>\<open>/500\<close>.
\<close>

theorem render_rejects_when_null_is_thrown:
  assumes found: "resolve_route imp app routeData_arg (request w) = Some (rd, st0)"
    and page: "type rd = ''page''"
    and info: "routeDataToRouteInfo app rd = Some info"
    and w1: "w1 = w\<lparr>request := (request w)\<lparr>clientLocalsSymbol := Some (JObj [])\<rparr>\<rparr>"
    and fails: "renderPage_try imp app info
                  (prependForwardSlash imp (removeBase app (url_pathname (request w1)))) rd
                  (pageMap (manifest app) (component rd))
                  (if route rd = ''/404'' then 404 else st0) w1 = Throws (Thrown v) w2"
    and nullish: "v = JNull \<or> v = JUndefined"
  shows "render (Suc n) imp app routeData_arg w =
           Throws (TypeError ''Cannot read properties of null or undefined'') w2"
proof -
  from nullish have "\<not> has_properties (Thrown v)"
    by auto
  from renderPage_private_rejects [OF info fails this]
  have "renderPage_private imp app rd (pageMap (manifest app) (component rd))
          (if route rd = ''/404'' then 404 else st0) w1 =
        Throws (TypeError ''Cannot read properties of null or undefined'') w2" .
  with found page w1 show ?thesis
    by (simp add: Let_def bindM_def)
qed

theorem render_rejects_when_null_is_thrown_witness:
  "render (Suc 0) sample_imports
     (sample_app [sample_route ''/'' ''page'' False ''rejects'',
                  sample_route ''/500'' ''page'' False ''oops''] None)
     None (sample_state ''/'' None [] []) =
   Throws (TypeError ''Cannot read properties of null or undefined'')
     (sample_state ''/'' (Some (JObj [])) [[]] [])"
  using render_rejects_when_null_is_thrown
    [where imp = sample_imports
       and app = "sample_app [sample_route ''/'' ''page'' False ''rejects'',
                              sample_route ''/500'' ''page'' False ''oops''] None"
       and routeData_arg = None and w = "sample_state ''/'' None [] []"
       and rd = "\<lparr>route = ''/'', type = ''page'', prerender = False, component = ''rejects''\<rparr>"
       and ?st0.0 = 200
       and info = "sample_route ''/'' ''page'' False ''rejects''"
       and ?w1.0 = "sample_state ''/'' (Some (JObj [])) [] []"
       and v = JUndefined
       and ?w2.0 = "sample_state ''/'' (Some (JObj [])) [[]] []"
       and n = 0]
  by (simp add: sample_defs run_defs monad_defs)

section \<open>Properties of endpoint responses\<close>

text \<open>
  Claim C5. An endpoint route is being served and the endpoint invoker returns a result
  of type \<^verbatim>\<open>simple\<close>. Then \<^verbatim>\<open>render\<close> returns a response with status 200, the
  encoded body, the cookies of that result attached, and two headers:
  \<^verbatim>\<open>Content-Type\<close>, the type \<^verbatim>\<open>mime\<close> gives for the pathname of the URL followed
  by \<^verbatim>\<open>;charset=utf-8\<close>, or \<^verbatim>\<open>text/plain;charset=utf-8\<close> when it gives none; and
  \<^verbatim>\<open>Content-Length\<close>, the number of bytes of the encoded body in decimal. For the
  body \<^verbatim>\<open>hi\<close> that number is 2.
\<close>

theorem simple_body_response:
  assumes found: "resolve_route imp app routeData_arg (request w) = Some (rd, st0)"
    and ep: "type rd = ''endpoint''"
    and w1: "w1 = w\<lparr>request := (request w)\<lparr>clientLocalsSymbol := Some (JObj [])\<rparr>\<rparr>"
    and result: "callEndpoint_result imp app rd (pageMap (manifest app) (component rd))
                   (if route rd = ''/404'' then 404 else st0) w1
                 = Returns (type_simple b enc jar) w3"
  shows "render (Suc n) imp app routeData_arg w =
     Returns
       \<lparr>status = 200, statusText = [],
        headers =
          [(''content-type'',
            (case mime_getType imp (url_pathname (request w)) of
               None \<Rightarrow> ''text/plain;charset=utf-8''
             | Some t \<Rightarrow> if t = [] then ''text/plain;charset=utf-8'' else t @ '';charset=utf-8'')),
           (''content-length'', toString (length (TextEncoder_encode b)))],
        body = Some (TextEncoder_encode b), astroCookies = Some jar\<rparr> w3
     \<and> toString (length (TextEncoder_encode ''hi'')) = ''2''"
proof -
  have "toString (length (TextEncoder_encode ''hi'')) = ''2''"
    by (simp add: TextEncoder_encode_def)
  moreover have "render (Suc n) imp app routeData_arg w =
     Returns
       \<lparr>status = 200, statusText = [],
        headers =
          [(''content-type'',
            (case mime_getType imp (url_pathname (request w)) of
               None \<Rightarrow> ''text/plain;charset=utf-8''
             | Some t \<Rightarrow> if t = [] then ''text/plain;charset=utf-8'' else t @ '';charset=utf-8'')),
           (''content-length'', toString (length (TextEncoder_encode b)))],
        body = Some (TextEncoder_encode b), astroCookies = Some jar\<rparr> w3"
    using found ep w1 result
    by (simp add: Let_def callEndpoint_private_def bindM_def returnM_def attachToResponse_def
        Headers_set_def lower_char_def split: option.splits)
  ultimately show ?thesis by simp
qed

theorem simple_body_response_witness:
  "render (Suc 0) sample_imports
     (sample_app [sample_route ''/api/hello'' ''endpoint'' False ''hi''] None)
     None (sample_state ''/api/hello'' None [] []) =
   Returns
     \<lparr>status = 200, statusText = [],
      headers = [(''content-type'', ''text/plain;charset=utf-8''), (''content-length'', ''2'')],
      body = Some [104, 105], astroCookies = Some 0\<rparr>
     (sample_state ''/api/hello'' (Some (JObj [])) [[]] [])"
  using simple_body_response
    [where imp = sample_imports
       and app = "sample_app [sample_route ''/api/hello'' ''endpoint'' False ''hi''] None"
       and routeData_arg = None and w = "sample_state ''/api/hello'' None [] []"
       and rd = "\<lparr>route = ''/api/hello'', type = ''endpoint'', prerender = False,
                  component = ''hi''\<rparr>"
       and ?st0.0 = 200
       and ?w1.0 = "sample_state ''/api/hello'' (Some (JObj [])) [] []"
       and b = "''hi''" and enc = None and jar = 0
       and ?w3.0 = "sample_state ''/api/hello'' (Some (JObj [])) [[]] []"
       and n = 0]
  by (simp add: sample_defs run_defs monad_defs)

text \<open>
  Claim C6. An endpoint route is being served and the endpoint invoker returns a
  \<^verbatim>\<open>Response\<close> whose header \<^verbatim>\<open>X-Astro-Response\<close> is \<^verbatim>\<open>Not-Found\<close>. Then
  \<^verbatim>\<open>render\<close> matches a new request for \<^verbatim>\<open>/404\<close>: when \<^verbatim>\<open>match\<close> finds a route,
  the result is that of \<^verbatim>\<open>render\<close> on the new request and that route (one level
  deeper), and the marked response is not returned; the marked response is returned only
  when \<^verbatim>\<open>match\<close> finds no route for \<^verbatim>\<open>/404\<close>.
\<close>

theorem not_found_marker_rerenders:
  assumes found: "resolve_route imp app routeData_arg (request w) = Some (rd, st0)"
    and ep: "type rd = ''endpoint''"
    and w1: "w1 = w\<lparr>request := (request w)\<lparr>clientLocalsSymbol := Some (JObj [])\<rparr>\<rparr>"
    and result: "callEndpoint_result imp app rd (pageMap (manifest app) (component rd))
                   (if route rd = ''/404'' then 404 else st0) w1
                 = Returns (type_response response) w3"
    and marker: "Headers_get (headers response) ''X-Astro-Response'' = Some ''Not-Found''"
  shows "render (Suc n) imp app routeData_arg w =
     (case match imp app (new_Request (url_origin (request w3)) ''/404'') False of
        Some rd404 \<Rightarrow>
          render n imp app (Some rd404)
            (w3\<lparr>request := new_Request (url_origin (request w3)) ''/404''\<rparr>)
      | None \<Rightarrow> Returns response w3)"
  using found ep w1 result marker
  by (simp add: Let_def callEndpoint_private_def bindM_def returnM_def split: option.splits)

theorem not_found_marker_rerenders_witness:
  "render (Suc (Suc 0)) sample_imports
     (sample_app [sample_route ''/api/items'' ''endpoint'' False ''items'',
                  sample_route ''/404'' ''page'' False ''notfound''] None)
     None (sample_state ''/api/items'' None [] []) =
   render (Suc 0) sample_imports
     (sample_app [sample_route ''/api/items'' ''endpoint'' False ''items'',
                  sample_route ''/404'' ''page'' False ''notfound''] None)
     (Some \<lparr>route = ''/404'', type = ''page'', prerender = False, component = ''notfound''\<rparr>)
     (sample_state ''/404'' None [[]] [])
   \<and> returned (render (Suc (Suc 0)) sample_imports
     (sample_app [sample_route ''/api/items'' ''endpoint'' False ''items'',
                  sample_route ''/404'' ''page'' False ''notfound''] None)
     None (sample_state ''/api/items'' None [] [])) =
     Some \<lparr>status = 404, statusText = [], headers = [(''content-type'', ''text/html'')],
           body = Some (TextEncoder_encode ''notfound''), astroCookies = Some 1\<rparr>"
  using not_found_marker_rerenders
    [where imp = sample_imports
       and app = "sample_app [sample_route ''/api/items'' ''endpoint'' False ''items'',
                              sample_route ''/404'' ''page'' False ''notfound''] None"
       and routeData_arg = None and w = "sample_state ''/api/items'' None [] []"
       and rd = "\<lparr>route = ''/api/items'', type = ''endpoint'', prerender = False,
                  component = ''items''\<rparr>"
       and ?st0.0 = 200
       and ?w1.0 = "sample_state ''/api/items'' (Some (JObj [])) [] []"
       and response = "\<lparr>status = 404, statusText = [],
             headers = [(''x-astro-response'', ''Not-Found'')], body = None,
             astroCookies = Some 0\<rparr>"
       and ?w3.0 = "sample_state ''/api/items'' (Some (JObj [])) [[]] []"
       and n = "Suc 0"]
  by (simp add: sample_defs run_defs monad_defs)

end
